theory Spec2Isabelle
  imports Main
begin

section \<open>Data model\<close>

text \<open>
  The objects of \<^verbatim>\<open>controllers/customdomainregistration_controller.go\<close>. The type
  declarations of package \<^verbatim>\<open>api/v1beta1\<close> are not among the sources; the records below
  hold the fields the controller reads and writes, with TypeMeta and ObjectMeta flattened
  into the object. A \<^verbatim>\<open>metav1.Time\<close> is a natural number, 0 being the zero time.
\<close>

type_synonym Time = nat

datatype ConditionStatus = ConditionTrue | ConditionFalse | ConditionUnknown

record Condition =
  cond_Type :: string
  cond_Status :: ConditionStatus
  cond_LastTransitionTime :: Time
  cond_Message :: string

record ObjectReference =
  ref_APIVersion :: string
  ref_Kind :: string
  ref_Name :: string
  ref_Namespace :: string
  ref_UID :: string

record CustomDomainDNSRecord =
  rec_Name :: string
  rec_Type :: string
  rec_Value :: string

record CustomDomainRegistrationStatus =
  Conditions :: "Condition list"
  DNSRecords :: "CustomDomainDNSRecord list"

record CustomDomainRegistration =
  reg_APIVersion :: string
  reg_Kind :: string
  reg_Name :: string
  reg_Namespace :: string
  reg_UID :: string
  reg_DeletionTimestamp :: "Time option"
  reg_Finalizers :: "string list"
  reg_Status :: CustomDomainRegistrationStatus

record CustomDomain =
  dom_Name :: string
  dom_Registrations :: "ObjectReference list"
  dom_VerificationKey :: "string option"
  dom_DNSRecords :: "CustomDomainDNSRecord list"

text \<open>A \<^verbatim>\<open>types.NamespacedName\<close>: the namespace, then the name.\<close>

type_synonym NamespacedName = "string \<times> string"

record Result =
  Requeue :: bool

text \<open>
  Go errors. \<^verbatim>\<open>apierrors.IsNotFound\<close> recognises \<open>NotFound\<close>; \<open>Error\<close> is the
  message of \<^verbatim>\<open>err.Error()\<close>.
\<close>

datatype error =
    NotFound
  | AlreadyExists
  | Conflict
  | StoreError string
  | NamingError string

fun Error :: "error \<Rightarrow> string" where
  "Error NotFound = ''not found''"
| "Error AlreadyExists = ''already exists''"
| "Error Conflict = ''the object has been modified''"
| "Error (StoreError m) = m"
| "Error (NamingError m) = m"

definition IsNotFound :: "error option \<Rightarrow> bool" where
  "IsNotFound err = (err = Some NotFound)"

definition IgnoreNotFound :: "error option \<Rightarrow> error option" where
  "IgnoreNotFound err = (if IsNotFound err then None else err)"

text \<open>
  Modelled from the spec: the constants \<^verbatim>\<open>RegistrationVerified\<close>,
  \<^verbatim>\<open>RegistrationAccepted\<close> and \<^verbatim>\<open>DomainFinalizer\<close> are declared outside the
  sources. The spec names the two condition types; it gives no text for the finalizer
  marker, and no proof below unfolds it.
\<close>

definition RegistrationVerified :: string where
  "RegistrationVerified = ''Verified''"

definition RegistrationAccepted :: string where
  "RegistrationAccepted = ''Accepted''"

definition DomainFinalizer :: string where
  "DomainFinalizer = ''domain.skygear.io/domain''"

section \<open>The resource store\<close>

text \<open>
  Modelled from the spec: the client (\<^verbatim>\<open>client.Client\<close> of controller-runtime) is a
  collaborator outside the repository. Section 6 of the spec gives its interface:
  \<^verbatim>\<open>get(identity) -> object | NotFound\<close>, \<^verbatim>\<open>create(object) -> error\<close>,
  \<^verbatim>\<open>patch(base, mutated) -> error (fails if base is stale)\<close>,
  \<^verbatim>\<open>updateStatus(object) -> error\<close>. The world holds the stored objects, the clock, a
  script of outcomes for the coming client calls (\<open>None\<close>: the store answers, \<open>Some e\<close>:
  the call fails with \<open>e\<close> and changes nothing) and the log of the calls made so far.
  A call that fails leaves the stored objects as they were.
\<close>

datatype call =
    GetRegistration NamespacedName
  | GetDomain string
  | CreateDomain CustomDomain
  | PatchDomain CustomDomain CustomDomain
  | UpdateRegistration CustomDomainRegistration
  | UpdateStatus CustomDomainRegistration

record world =
  registrations :: "NamespacedName \<rightharpoonup> CustomDomainRegistration"
  domains :: "string \<rightharpoonup> CustomDomain"
  clock :: Time
  faults :: "error option list"
  calls :: "call list"

definition enter :: "call \<Rightarrow> world \<Rightarrow> error option \<times> world" where
  "enter c w =
     (case faults w of
        [] \<Rightarrow> (None, w\<lparr>calls := calls w @ [c]\<rparr>)
      | f # fs \<Rightarrow> (f, w\<lparr>faults := fs, calls := calls w @ [c]\<rparr>))"

definition Get_registration ::
  "world \<Rightarrow> NamespacedName \<Rightarrow> (error + CustomDomainRegistration) \<times> world" where
  "Get_registration w key =
     (case enter (GetRegistration key) w of
        (Some e, w1) \<Rightarrow> (Inl e, w1)
      | (None, w1) \<Rightarrow>
          (case registrations w1 key of
             None \<Rightarrow> (Inl NotFound, w1)
           | Some reg \<Rightarrow> (Inr reg, w1)))"

definition Get_domain :: "world \<Rightarrow> string \<Rightarrow> (error + CustomDomain) \<times> world" where
  "Get_domain w name =
     (case enter (GetDomain name) w of
        (Some e, w1) \<Rightarrow> (Inl e, w1)
      | (None, w1) \<Rightarrow>
          (case domains w1 name of
             None \<Rightarrow> (Inl NotFound, w1)
           | Some d \<Rightarrow> (Inr d, w1)))"

definition Create :: "world \<Rightarrow> CustomDomain \<Rightarrow> error option \<times> world" where
  "Create w d =
     (case enter (CreateDomain d) w of
        (Some e, w1) \<Rightarrow> (Some e, w1)
      | (None, w1) \<Rightarrow>
          (case domains w1 (dom_Name d) of
             Some _ \<Rightarrow> (Some AlreadyExists, w1)
           | None \<Rightarrow> (None, w1\<lparr>domains := (domains w1)(dom_Name d \<mapsto> d)\<rparr>)))"

text \<open>
  Modelled from the spec: \<open>Patch w d base\<close> is
  \<^verbatim>\<open>r.Patch(ctx, &d, client.MergeFrom(base))\<close>. Following section 6, the patch is
  refused when the stored object is no longer \<open>base\<close>, and stores \<open>d\<close> otherwise; it
  reports an error only. (The Go client also decodes the store's answer into \<open>d\<close>; after
  an accepted patch of the registration list the answer holds the list that was sent, so
  the model leaves the caller's object as the caller changed it.)
\<close>

definition Patch :: "world \<Rightarrow> CustomDomain \<Rightarrow> CustomDomain \<Rightarrow> error option \<times> world" where
  "Patch w d base =
     (case enter (PatchDomain base d) w of
        (Some e, w1) \<Rightarrow> (Some e, w1)
      | (None, w1) \<Rightarrow>
          (case domains w1 (dom_Name d) of
             None \<Rightarrow> (Some NotFound, w1)
           | Some stored \<Rightarrow>
               if stored \<noteq> base then (Some Conflict, w1)
               else (None, w1\<lparr>domains := (domains w1)(dom_Name d \<mapsto> d)\<rparr>)))"

text \<open>
  Modelled from the spec: \<open>Update\<close> (\<^verbatim>\<open>r.Update\<close>, by which the finalizer helpers
  persist the object) writes the object but its status, \<open>Status_Update\<close>
  (\<^verbatim>\<open>r.Status().Update\<close>) writes the status only: the status is a subresource.
\<close>

definition Update :: "world \<Rightarrow> CustomDomainRegistration \<Rightarrow> error option \<times> world" where
  "Update w reg =
     (case enter (UpdateRegistration reg) w of
        (Some e, w1) \<Rightarrow> (Some e, w1)
      | (None, w1) \<Rightarrow>
          (case registrations w1 (reg_Namespace reg, reg_Name reg) of
             None \<Rightarrow> (Some NotFound, w1)
           | Some stored \<Rightarrow>
               (None, w1\<lparr>registrations := (registrations w1)
                  ((reg_Namespace reg, reg_Name reg) \<mapsto> reg\<lparr>reg_Status := reg_Status stored\<rparr>)\<rparr>)))"

definition Status_Update :: "world \<Rightarrow> CustomDomainRegistration \<Rightarrow> error option \<times> world" where
  "Status_Update w reg =
     (case enter (UpdateStatus reg) w of
        (Some e, w1) \<Rightarrow> (Some e, w1)
      | (None, w1) \<Rightarrow>
          (case registrations w1 (reg_Namespace reg, reg_Name reg) of
             None \<Rightarrow> (Some NotFound, w1)
           | Some stored \<Rightarrow>
               (None, w1\<lparr>registrations := (registrations w1)
                  ((reg_Namespace reg, reg_Name reg) \<mapsto> stored\<lparr>reg_Status := reg_Status reg\<rparr>)\<rparr>)))"

section \<open>Helpers of the repository outside the sources\<close>

text \<open>
  Modelled from the spec: package \<^verbatim>\<open>util/slice\<close> is missing. Section 4.2:
  \<^verbatim>\<open>contains(set, ref)\<close> is true iff some element matches on (namespace, name, UID);
  \<^verbatim>\<open>remove(set, ref)\<close> returns the set with all matching elements removed.
\<close>

definition matches :: "CustomDomainRegistration \<Rightarrow> ObjectReference \<Rightarrow> bool" where
  "matches reg ref =
     (ref_Namespace ref = reg_Namespace reg \<and> ref_Name ref = reg_Name reg
      \<and> ref_UID ref = reg_UID reg)"

definition ContainsObjectReference ::
  "ObjectReference list \<Rightarrow> CustomDomainRegistration \<Rightarrow> bool" where
  "ContainsObjectReference refs reg = list_ex (matches reg) refs"

definition RemoveObjectReference ::
  "ObjectReference list \<Rightarrow> CustomDomainRegistration \<Rightarrow> ObjectReference list" where
  "RemoveObjectReference refs reg = filter (\<lambda>ref. \<not> matches reg ref) refs"

text \<open>
  Modelled from the spec: package \<^verbatim>\<open>util/condition\<close> is missing. \<open>ToStatus\<close> is the
  spec's status-of; \<open>MergeFrom\<close> is section 4.1: a new condition for which the previous
  set holds a condition of the same type with the same status value carries that
  condition's \<open>lastTransitionTime\<close> forward, any other receives the reconciling instant.
  The Go function rewrites the slice \<open>conditions\<close> in place; the model returns it.
\<close>

definition ToStatus :: "bool \<Rightarrow> ConditionStatus" where
  "ToStatus b = (if b then ConditionTrue else ConditionFalse)"

definition MergeOne :: "Time \<Rightarrow> Condition list \<Rightarrow> Condition \<Rightarrow> Condition" where
  "MergeOne now previous c =
     (case find (\<lambda>p. cond_Type p = cond_Type c \<and> cond_Status p = cond_Status c) previous of
        Some p \<Rightarrow> c\<lparr>cond_LastTransitionTime := cond_LastTransitionTime p\<rparr>
      | None \<Rightarrow> c\<lparr>cond_LastTransitionTime := now\<rparr>)"

definition MergeFrom :: "Time \<Rightarrow> Condition list \<Rightarrow> Condition list \<Rightarrow> Condition list" where
  "MergeFrom now conditions previous = map (MergeOne now previous) conditions"

text \<open>
  Modelled from the spec: package \<^verbatim>\<open>util/finalizer\<close> is missing. Section 4.3:
  \<^verbatim>\<open>ensure\<close> adds an absent marker, persists the object and signals "added";
  \<^verbatim>\<open>remove\<close> drops the marker and persists. Both return the object as they left it.
\<close>

definition Ensure ::
  "world \<Rightarrow> CustomDomainRegistration \<Rightarrow> string
     \<Rightarrow> (bool \<times> error option) \<times> CustomDomainRegistration \<times> world" where
  "Ensure w reg marker =
     (if marker \<in> set (reg_Finalizers reg) then ((False, None), reg, w)
      else
        (let reg' = reg\<lparr>reg_Finalizers := reg_Finalizers reg @ [marker]\<rparr> in
         case Update w reg' of
           (Some e, w1) \<Rightarrow> ((False, Some e), reg', w1)
         | (None, w1) \<Rightarrow> ((True, None), reg', w1)))"

definition Remove ::
  "world \<Rightarrow> CustomDomainRegistration \<Rightarrow> string \<Rightarrow> error option \<times> world" where
  "Remove w reg marker =
     Update w (reg\<lparr>reg_Finalizers := filter (\<lambda>f. f \<noteq> marker) (reg_Finalizers reg)\<rparr>)"

section \<open>The reconciler\<close>

text \<open>
  The struct \<^verbatim>\<open>CustomDomainRegistrationReconciler\<close>. Its client is the world above.
  \<^verbatim>\<open>verification.MakeDNSRecordName\<close> is a function of the repository outside the
  sources; it is a parameter, carried beside the token generator.
\<close>

record CustomDomainRegistrationReconciler =
  VerificationTokenGenerator :: "string \<Rightarrow> string \<Rightarrow> string"
  MakeDNSRecordName :: "string \<Rightarrow> error + string"

definition regRef :: "CustomDomainRegistration \<Rightarrow> ObjectReference" where
  "regRef reg =
     \<lparr>ref_APIVersion = reg_APIVersion reg, ref_Kind = reg_Kind reg, ref_Name = reg_Name reg,
      ref_Namespace = reg_Namespace reg, ref_UID = reg_UID reg\<rparr>"

definition registerDomain :: "world \<Rightarrow> CustomDomainRegistration \<Rightarrow> error option \<times> world" where
  "registerDomain w reg =
     (case Get_domain w (reg_Name reg) of
        (Inl e, w1) \<Rightarrow>
          if \<not> IsNotFound (Some e) then (Some e, w1)
          else
            (let domain = \<lparr>dom_Name = reg_Name reg, dom_Registrations = [regRef reg],
                           dom_VerificationKey = None, dom_DNSRecords = []\<rparr> in
             case Create w1 domain of
               (Some e', w2) \<Rightarrow> (Some e', w2)
             | (None, w2) \<Rightarrow> (None, w2))
      | (Inr domain, w1) \<Rightarrow>
          if \<not> ContainsObjectReference (dom_Registrations domain) reg then
            (let patch = domain;
                 domain' = domain\<lparr>dom_Registrations := dom_Registrations domain @ [regRef reg]\<rparr> in
             case Patch w1 domain' patch of
               (Some e', w2) \<Rightarrow> (Some e', w2)
             | (None, w2) \<Rightarrow> (None, w2))
          else (None, w1))"

definition unregisterDomain ::
  "world \<Rightarrow> CustomDomainRegistration \<Rightarrow> (bool \<times> error option) \<times> world" where
  "unregisterDomain w reg =
     (case Get_domain w (reg_Name reg) of
        (Inl e, w1) \<Rightarrow>
          if IsNotFound (Some e) then ((False, None), w1) else ((False, Some e), w1)
      | (Inr domain, w1) \<Rightarrow>
          if ContainsObjectReference (dom_Registrations domain) reg then
            (let patch = domain;
                 domain' = domain\<lparr>dom_Registrations :=
                             RemoveObjectReference (dom_Registrations domain) reg\<rparr> in
             case Patch w1 domain' patch of
               (Some e', w2) \<Rightarrow> ((False, Some e'), w2)
             | (None, w2) \<Rightarrow>
                 ((ContainsObjectReference (dom_Registrations domain') reg, None), w2))
          else ((ContainsObjectReference (dom_Registrations domain) reg, None), w1))"

text \<open>
  The loop of \<^verbatim>\<open>verifyDomainIfNeeded\<close> over \<^verbatim>\<open>reg.Status.Conditions\<close>: it stops at
  the first condition of type \<open>RegistrationVerified\<close> and yields \<open>currentVerified\<close> and
  \<open>lastVerifyTime\<close>.
\<close>

fun lastVerified :: "Condition list \<Rightarrow> bool \<times> Time" where
  "lastVerified [] = (False, 0)"
| "lastVerified (cond # rest) =
     (if cond_Type cond = RegistrationVerified
      then (cond_Status cond = ConditionTrue, cond_LastTransitionTime cond)
      else lastVerified rest)"

definition verifyDomainIfNeeded ::
  "CustomDomainRegistrationReconciler \<Rightarrow> world \<Rightarrow> CustomDomainRegistration
     \<Rightarrow> (bool \<times> error option) \<times> CustomDomainRegistration \<times> world" where
  "verifyDomainIfNeeded r w reg =
     (case Get_domain w (reg_Name reg) of
        (Inl e, w1) \<Rightarrow> ((False, Some e), reg, w1)
      | (Inr domain, w1) \<Rightarrow>
          (case dom_VerificationKey domain of
             None \<Rightarrow> ((False, None), reg, w1)
           | Some key \<Rightarrow>
               (let token = VerificationTokenGenerator r key (reg_UID reg) in
                case MakeDNSRecordName r (dom_Name domain) of
                  Inl e \<Rightarrow> ((False, Some e), reg, w1)
                | Inr dnsRecordName \<Rightarrow>
                    (let records = dom_DNSRecords domain @
                           [\<lparr>rec_Name = dnsRecordName, rec_Type = ''TXT'', rec_Value = token\<rparr>];
                         reg' = reg\<lparr>reg_Status := (reg_Status reg)\<lparr>DNSRecords := records\<rparr>\<rparr>;
                         currentVerified = fst (lastVerified (Conditions (reg_Status reg')))
                     in if currentVerified then ((True, None), reg', w1)
                        else ((False, None), reg', w1)))))"

text \<open>
  \<^verbatim>\<open>Reconcile\<close>, lines 61 to 109: the two branches. A branch either returns from
  \<^verbatim>\<open>Reconcile\<close> (\<open>Inl\<close>) or reaches line 111 with \<open>conditions\<close>, \<open>doFinalize\<close> and
  the registration (\<open>Inr\<close>).
\<close>

definition Reconcile_branch ::
  "CustomDomainRegistrationReconciler \<Rightarrow> world \<Rightarrow> CustomDomainRegistration
     \<Rightarrow> ((Result \<times> error option) + (Condition list \<times> bool \<times> CustomDomainRegistration)) \<times> world"
  where
  "Reconcile_branch r w reg =
     (if reg_DeletionTimestamp reg = None then
        (case Ensure w reg DomainFinalizer of
           ((finalizerAdded, Some e), reg1, w1) \<Rightarrow> (Inl (\<lparr>Requeue = False\<rparr>, Some e), w1)
         | ((finalizerAdded, None), reg1, w1) \<Rightarrow>
             if finalizerAdded then (Inl (\<lparr>Requeue = True\<rparr>, None), w1)
             else
               (case registerDomain w1 reg1 of
                  (Some e, w2) \<Rightarrow> (Inl (\<lparr>Requeue = False\<rparr>, Some e), w2)
                | (None, w2) \<Rightarrow>
                    (case verifyDomainIfNeeded r w2 reg1 of
                       ((verified, Some e), reg2, w3) \<Rightarrow>
                         (Inr ([\<lparr>cond_Type = RegistrationVerified, cond_Status = ConditionUnknown,
                                 cond_LastTransitionTime = 0, cond_Message = Error e\<rparr>],
                               False, reg2), w3)
                     | ((verified, None), reg2, w3) \<Rightarrow>
                         (Inr ([\<lparr>cond_Type = RegistrationVerified, cond_Status = ToStatus verified,
                                 cond_LastTransitionTime = 0, cond_Message = []\<rparr>],
                               False, reg2), w3))))
      else
        (case unregisterDomain w reg of
           ((registered, Some e), w1) \<Rightarrow>
             (Inr ([\<lparr>cond_Type = RegistrationAccepted, cond_Status = ConditionUnknown,
                     cond_LastTransitionTime = 0, cond_Message = Error e\<rparr>],
                   False, reg), w1)
         | ((registered, None), w1) \<Rightarrow>
             (Inr ([\<lparr>cond_Type = RegistrationAccepted, cond_Status = ToStatus registered,
                     cond_LastTransitionTime = 0, cond_Message = []\<rparr>],
                   True \<and> \<not> registered, reg), w1)))"

definition Reconcile ::
  "CustomDomainRegistrationReconciler \<Rightarrow> world \<Rightarrow> NamespacedName
     \<Rightarrow> (Result \<times> error option) \<times> world" where
  "Reconcile r w req =
     (case Get_registration w req of
        (Inl e, w0) \<Rightarrow> ((\<lparr>Requeue = False\<rparr>, IgnoreNotFound (Some e)), w0)
      | (Inr reg, w0) \<Rightarrow>
          (case Reconcile_branch r w0 reg of
             (Inl res, w1) \<Rightarrow> (res, w1)
           | (Inr (conditions, doFinalize, reg1), w1) \<Rightarrow>
               (let conditions' = MergeFrom (clock w1) conditions (Conditions (reg_Status reg1));
                    reg2 = reg1\<lparr>reg_Status := (reg_Status reg1)\<lparr>Conditions := conditions'\<rparr>\<rparr> in
                case Status_Update w1 reg2 of
                  (Some e, w2) \<Rightarrow> ((\<lparr>Requeue = False\<rparr>, Some e), w2)
                | (None, w2) \<Rightarrow>
                    if doFinalize then
                      (case Remove w2 reg2 DomainFinalizer of
                         (err, w3) \<Rightarrow> ((\<lparr>Requeue = False\<rparr>, err), w3))
                    else ((\<lparr>Requeue = False\<rparr>, None), w2))))"

section \<open>Store answers, and objects to run the controller on\<close>

text \<open>
  \<open>answers w\<close>: the store answers the next call (the script fails no call there);
  \<open>answered c w\<close> is the world after that call, when the call writes nothing.
\<close>

definition answers :: "world \<Rightarrow> bool" where
  "answers w = (case faults w of [] \<Rightarrow> True | f # _ \<Rightarrow> f = None)"

definition answered :: "call \<Rightarrow> world \<Rightarrow> world" where
  "answered c w = w\<lparr>faults := tl (faults w), calls := calls w @ [c]\<rparr>"

text \<open>
  A reconciler, a registration \<open>ns/acme\<close> with UID \<open>u1\<close>, the reference of a second
  registration of the same hostname, a domain \<open>acme\<close> and a world holding them, on which
  the theorems below are run.
\<close>

definition ex_reconciler :: CustomDomainRegistrationReconciler where
  "ex_reconciler =
     \<lparr>VerificationTokenGenerator = (\<lambda>key nonce. key @ ''-'' @ nonce),
      MakeDNSRecordName = (\<lambda>host. if host = [] then Inl (NamingError ''empty hostname'')
                                   else Inr (''_skygear.'' @ host))\<rparr>"

definition ex_r1 :: CustomDomainRegistration where
  "ex_r1 =
     \<lparr>reg_APIVersion = ''domain.skygear.io/v1beta1'', reg_Kind = ''CustomDomainRegistration'',
      reg_Name = ''acme'', reg_Namespace = ''ns'', reg_UID = ''u1'',
      reg_DeletionTimestamp = None, reg_Finalizers = [DomainFinalizer],
      reg_Status = \<lparr>Conditions = [], DNSRecords = []\<rparr>\<rparr>"

definition ex_ref2 :: ObjectReference where
  "ex_ref2 =
     \<lparr>ref_APIVersion = ''domain.skygear.io/v1beta1'', ref_Kind = ''CustomDomainRegistration'',
      ref_Name = ''acme'', ref_Namespace = ''other'', ref_UID = ''u2''\<rparr>"

definition ex_domain :: "ObjectReference list \<Rightarrow> string option \<Rightarrow> CustomDomain" where
  "ex_domain refs key =
     \<lparr>dom_Name = ''acme'', dom_Registrations = refs, dom_VerificationKey = key,
      dom_DNSRecords = []\<rparr>"

definition ex_world ::
  "CustomDomainRegistration \<Rightarrow> CustomDomain option \<Rightarrow> error option list \<Rightarrow> world" where
  "ex_world reg d fs =
     \<lparr>registrations = Map.empty((''ns'', ''acme'') \<mapsto> reg),
      domains = (case d of None \<Rightarrow> Map.empty | Some d' \<Rightarrow> Map.empty(''acme'' \<mapsto> d')),
      clock = 7, faults = fs, calls = []\<rparr>"

lemmas ex_defs =
  ex_reconciler_def ex_r1_def ex_ref2_def ex_domain_def ex_world_def

lemmas store_defs =
  enter_def Get_registration_def Get_domain_def Create_def Patch_def Update_def
  Status_Update_def IsNotFound_def IgnoreNotFound_def

lemmas helper_defs =
  matches_def ContainsObjectReference_def RemoveObjectReference_def ToStatus_def
  MergeOne_def MergeFrom_def Ensure_def Remove_def regRef_def
  RegistrationVerified_def RegistrationAccepted_def

lemmas controller_defs =
  registerDomain_def unregisterDomain_def verifyDomainIfNeeded_def Reconcile_branch_def
  Reconcile_def Let_def

section \<open>What each store call and each operation leaves unchanged\<close>

lemma enter_frame:
  "enter c w = (f, w1) \<Longrightarrow>
     registrations w1 = registrations w \<and> domains w1 = domains w \<and> clock w1 = clock w
     \<and> calls w1 = calls w @ [c]"
  by (auto simp: enter_def split: list.splits)

lemma Get_domain_frame:
  "Get_domain w n = (x, w1) \<Longrightarrow>
     registrations w1 = registrations w \<and> domains w1 = domains w \<and> clock w1 = clock w
     \<and> calls w1 = calls w @ [GetDomain n]"
  by (auto simp: Get_domain_def split: prod.splits option.splits dest: enter_frame)

lemma Get_domain_found:
  "Get_domain w n = (Inr d, w1) \<Longrightarrow> domains w n = Some d"
  by (auto simp: Get_domain_def split: prod.splits option.splits dest: enter_frame)

lemma Get_registration_frame:
  "Get_registration w k = (x, w1) \<Longrightarrow>
     registrations w1 = registrations w \<and> domains w1 = domains w \<and> clock w1 = clock w
     \<and> calls w1 = calls w @ [GetRegistration k]"
  by (auto simp: Get_registration_def split: prod.splits option.splits dest: enter_frame)

lemma Create_frame:
  "Create w d = (x, w1) \<Longrightarrow>
     registrations w1 = registrations w \<and> clock w1 = clock w
     \<and> calls w1 = calls w @ [CreateDomain d]"
  by (auto simp: Create_def split: prod.splits option.splits dest: enter_frame)

lemma Create_exists:
  "domains w (dom_Name d) \<noteq> None \<Longrightarrow> domains (snd (Create w d)) = domains w"
  by (auto simp: Create_def split: prod.splits option.splits dest: enter_frame)

lemma Patch_frame:
  "Patch w d b = (x, w1) \<Longrightarrow>
     registrations w1 = registrations w \<and> clock w1 = clock w
     \<and> calls w1 = calls w @ [PatchDomain b d]"
  by (auto simp: Patch_def split: prod.splits option.splits if_splits dest: enter_frame)

lemma Patch_failed:
  "Patch w d b = (Some e, w1) \<Longrightarrow> domains w1 = domains w"
  by (auto simp: Patch_def split: prod.splits option.splits if_splits dest: enter_frame)


lemma Update_frame:
  "Update w reg = (x, w1) \<Longrightarrow>
     domains w1 = domains w \<and> clock w1 = clock w \<and> calls w1 = calls w @ [UpdateRegistration reg]
     \<and> (\<forall>k. map_option reg_Status (registrations w1 k) = map_option reg_Status (registrations w k))"
  by (auto simp: Update_def split: prod.splits option.splits dest: enter_frame)

lemma Update_failed:
  "Update w reg = (Some e, w1) \<Longrightarrow> registrations w1 = registrations w"
  by (auto simp: Update_def split: prod.splits option.splits dest: enter_frame)

lemma Status_Update_frame:
  "Status_Update w reg = (x, w1) \<Longrightarrow>
     domains w1 = domains w \<and> clock w1 = clock w \<and> calls w1 = calls w @ [UpdateStatus reg]
     \<and> (\<forall>k. map_option reg_Finalizers (registrations w1 k)
              = map_option reg_Finalizers (registrations w k))"
  by (auto simp: Status_Update_def split: prod.splits option.splits dest: enter_frame)

lemma Status_Update_failed:
  "Status_Update w reg = (Some e, w1) \<Longrightarrow> registrations w1 = registrations w"
  by (auto simp: Status_Update_def split: prod.splits option.splits dest: enter_frame)

lemma Status_Update_done:
  "Status_Update w reg = (None, w1) \<Longrightarrow>
     map_option reg_Status (registrations w1 (reg_Namespace reg, reg_Name reg))
       = Some (reg_Status reg)"
  by (auto simp: Status_Update_def split: prod.splits option.splits dest: enter_frame)

lemma registerDomain_frame:
  "registerDomain w reg = (x, w1) \<Longrightarrow> registrations w1 = registrations w \<and> clock w1 = clock w"
  by (auto simp: registerDomain_def Let_def
      split: prod.splits sum.splits if_splits option.splits
      dest!: Get_domain_frame Create_frame Patch_frame)

lemma unregisterDomain_frame:
  "unregisterDomain w reg = (x, w1) \<Longrightarrow> registrations w1 = registrations w \<and> clock w1 = clock w"
  by (auto simp: unregisterDomain_def Let_def
      split: prod.splits sum.splits if_splits option.splits
      dest!: Get_domain_frame Patch_frame)

lemma verifyDomainIfNeeded_frame:
  "verifyDomainIfNeeded r w reg = (x, reg', w1) \<Longrightarrow>
     registrations w1 = registrations w \<and> domains w1 = domains w \<and> clock w1 = clock w
     \<and> calls w1 = calls w @ [GetDomain (reg_Name reg)]"
  by (auto simp: verifyDomainIfNeeded_def Let_def
      split: prod.splits sum.splits if_splits option.splits
      dest!: Get_domain_frame)

lemma Ensure_present:
  "marker \<in> set (reg_Finalizers reg) \<Longrightarrow> Ensure w reg marker = ((False, None), reg, w)"
  by (simp add: Ensure_def)

lemma Ensure_not_added:
  "Ensure w reg marker = ((False, x), reg1, w1) \<Longrightarrow> registrations w1 = registrations w"
  by (auto simp: Ensure_def Let_def split: if_splits prod.splits option.splits
      dest: Update_failed)

lemma Reconcile_branch_frame:
  "Reconcile_branch r w reg = (Inr x, w1) \<Longrightarrow> registrations w1 = registrations w"
  by (auto simp: Reconcile_branch_def
      split: prod.splits sum.splits if_splits option.splits
      dest!: registerDomain_frame unregisterDomain_frame verifyDomainIfNeeded_frame
      dest: Ensure_not_added)

section \<open>Helper facts\<close>

lemma enter_answers: "answers w \<Longrightarrow> enter c w = (None, answered c w)"
  by (auto simp: enter_def answers_def answered_def split: list.splits)

lemma lastVerified_True:
  "\<exists>c\<in>set cs. cond_Type c = RegistrationVerified \<Longrightarrow>
   \<forall>c\<in>set cs. cond_Type c = RegistrationVerified \<longrightarrow> cond_Status c = ConditionTrue \<Longrightarrow>
   fst (lastVerified cs)"
  by (induction cs) auto

lemma lastVerified_False:
  "\<forall>c\<in>set cs. cond_Type c = RegistrationVerified \<longrightarrow> cond_Status c \<noteq> ConditionTrue \<Longrightarrow>
   \<not> fst (lastVerified cs)"
  by (induction cs) auto

lemma Ensure_failed:
  "Ensure w reg marker = ((added, Some e), reg1, w1) \<Longrightarrow> registrations w1 = registrations w"
  by (auto simp: Ensure_def Let_def split: if_splits prod.splits option.splits
      dest: Update_failed)

section \<open>Verification\<close>

text \<open>
  Claim C5. With the domain loaded, its verification key present and the record name
  derived, \<open>verifyDomainIfNeeded\<close> reports \<open>true\<close> for a registration whose
  \<open>Verified\<close> condition has status \<open>True\<close>, and \<open>false\<close> for a registration that holds
  no \<open>Verified\<close> condition with status \<open>True\<close>; in both cases without an error. (The
  conditions hold at most one condition of each type; the first premise is then "the
  \<open>Verified\<close> condition is \<open>True\<close>".)
\<close>

theorem verifyDomainIfNeeded_sticky:
  assumes "Get_domain w (reg_Name reg) = (Inr d, w1)"
    and "dom_VerificationKey d = Some key"
    and "MakeDNSRecordName r (dom_Name d) = Inr n"
  shows "((\<exists>c\<in>set (Conditions (reg_Status reg)). cond_Type c = RegistrationVerified)
          \<and> (\<forall>c\<in>set (Conditions (reg_Status reg)).
                cond_Type c = RegistrationVerified \<longrightarrow> cond_Status c = ConditionTrue)
          \<longrightarrow> fst (verifyDomainIfNeeded r w reg) = (True, None))
       \<and> ((\<forall>c\<in>set (Conditions (reg_Status reg)).
                cond_Type c = RegistrationVerified \<longrightarrow> cond_Status c \<noteq> ConditionTrue)
          \<longrightarrow> fst (verifyDomainIfNeeded r w reg) = (False, None))"
proof (intro conjI impI)
  assume "(\<exists>c\<in>set (Conditions (reg_Status reg)). cond_Type c = RegistrationVerified)
          \<and> (\<forall>c\<in>set (Conditions (reg_Status reg)).
                cond_Type c = RegistrationVerified \<longrightarrow> cond_Status c = ConditionTrue)"
  then have "fst (lastVerified (Conditions (reg_Status reg)))"
    using lastVerified_True by blast
  with assms show "fst (verifyDomainIfNeeded r w reg) = (True, None)"
    by (simp add: verifyDomainIfNeeded_def Let_def)
next
  assume "\<forall>c\<in>set (Conditions (reg_Status reg)).
                cond_Type c = RegistrationVerified \<longrightarrow> cond_Status c \<noteq> ConditionTrue"
  then have "\<not> fst (lastVerified (Conditions (reg_Status reg)))"
    by (rule lastVerified_False)
  with assms show "fst (verifyDomainIfNeeded r w reg) = (False, None)"
    by (simp add: verifyDomainIfNeeded_def Let_def)
qed

theorem verifyDomainIfNeeded_sticky_witness:
  "fst (verifyDomainIfNeeded ex_reconciler (ex_world ex_r1 (Some (ex_domain [] (Some ''k''))) [])
          (ex_r1\<lparr>reg_Status := \<lparr>Conditions =
              [\<lparr>cond_Type = RegistrationVerified, cond_Status = ConditionTrue,
                cond_LastTransitionTime = 3, cond_Message = []\<rparr>], DNSRecords = []\<rparr>\<rparr>))
     = (True, None)
   \<and> fst (verifyDomainIfNeeded ex_reconciler (ex_world ex_r1 (Some (ex_domain [] (Some ''k''))) [])
          (ex_r1\<lparr>reg_Status := \<lparr>Conditions =
              [\<lparr>cond_Type = RegistrationVerified, cond_Status = ConditionFalse,
                cond_LastTransitionTime = 3, cond_Message = []\<rparr>], DNSRecords = []\<rparr>\<rparr>))
     = (False, None)"
proof -
  let ?w = "ex_world ex_r1 (Some (ex_domain [] (Some ''k''))) []"
  let ?rT = "ex_r1\<lparr>reg_Status := \<lparr>Conditions =
              [\<lparr>cond_Type = RegistrationVerified, cond_Status = ConditionTrue,
                cond_LastTransitionTime = 3, cond_Message = []\<rparr>], DNSRecords = []\<rparr>\<rparr>"
  let ?rF = "ex_r1\<lparr>reg_Status := \<lparr>Conditions =
              [\<lparr>cond_Type = RegistrationVerified, cond_Status = ConditionFalse,
                cond_LastTransitionTime = 3, cond_Message = []\<rparr>], DNSRecords = []\<rparr>\<rparr>"
  have gT: "Get_domain ?w (reg_Name ?rT)
      = (Inr (ex_domain [] (Some ''k'')), snd (Get_domain ?w ''acme''))"
    by (simp add: ex_defs store_defs)
  have gF: "Get_domain ?w (reg_Name ?rF)
      = (Inr (ex_domain [] (Some ''k'')), snd (Get_domain ?w ''acme''))"
    by (simp add: ex_defs store_defs)
  have k: "dom_VerificationKey (ex_domain [] (Some ''k'')) = Some ''k''"
    by (simp add: ex_defs)
  have n: "MakeDNSRecordName ex_reconciler (dom_Name (ex_domain [] (Some ''k'')))
      = Inr ''_skygear.acme''"
    by (simp add: ex_defs)
  show ?thesis
    using verifyDomainIfNeeded_sticky [OF gT k n] verifyDomainIfNeeded_sticky [OF gF k n]
    by (simp add: ex_defs)
qed

text \<open>
  Claim C6. When the loaded domain has no verification key, \<open>verifyDomainIfNeeded\<close>
  returns \<open>false\<close> with no error and leaves the registration as it was, its
  \<open>status.dnsRecords\<close> included; the store is not written.
\<close>

theorem verifyDomainIfNeeded_no_key:
  assumes "Get_domain w (reg_Name reg) = (Inr d, w1)"
    and "dom_VerificationKey d = None"
  shows "verifyDomainIfNeeded r w reg = ((False, None), reg, w1)
       \<and> registrations w1 = registrations w \<and> domains w1 = domains w"
  using assms Get_domain_frame [OF assms(1)]
  by (simp add: verifyDomainIfNeeded_def)

theorem verifyDomainIfNeeded_no_key_witness:
  "verifyDomainIfNeeded ex_reconciler (ex_world ex_r1 (Some (ex_domain [] None)) []) ex_r1
     = ((False, None), ex_r1,
        snd (Get_domain (ex_world ex_r1 (Some (ex_domain [] None)) []) ''acme''))"
proof -
  have g: "Get_domain (ex_world ex_r1 (Some (ex_domain [] None)) []) (reg_Name ex_r1)
      = (Inr (ex_domain [] None),
         snd (Get_domain (ex_world ex_r1 (Some (ex_domain [] None)) []) ''acme''))"
    by (simp add: ex_defs store_defs)
  have k: "dom_VerificationKey (ex_domain [] None) = None"
    by (simp add: ex_defs)
  show ?thesis
    using verifyDomainIfNeeded_no_key [OF g k, of ex_reconciler] by simp
qed

section \<open>Binding and unbinding\<close>

text \<open>
  Claim C7. Registering a registration that the stored domain already references is a
  no-op: whatever the store answers, the stored domains are the same afterwards (the
  registration list keeps its length, its elements and their order); when the store
  answers the read, \<open>registerDomain\<close> returns no error after that single read.
\<close>

theorem registerDomain_idempotent:
  assumes "domains w (reg_Name reg) = Some d"
    and "ContainsObjectReference (dom_Registrations d) reg"
  shows "domains (snd (registerDomain w reg)) = domains w
       \<and> (answers w \<longrightarrow>
            registerDomain w reg = (None, answered (GetDomain (reg_Name reg)) w))"
proof (intro conjI impI)
  obtain got w1 where g: "Get_domain w (reg_Name reg) = (got, w1)"
    by (cases "Get_domain w (reg_Name reg)")
  note f = Get_domain_frame [OF g]
  show "domains (snd (registerDomain w reg)) = domains w"
  proof (cases got)
    case (Inl e)
    have ex: "domains w1 (reg_Name reg) \<noteq> None" using f assms(1) by simp
    show ?thesis
    proof (cases "e = NotFound")
      case True
      let ?d = "\<lparr>dom_Name = reg_Name reg, dom_Registrations = [regRef reg],
                 dom_VerificationKey = None, dom_DNSRecords = []\<rparr>"
      have "domains (snd (Create w1 ?d)) = domains w1"
        using ex by (intro Create_exists) simp
      then show ?thesis using g Inl True f
        by (cases "Create w1 ?d")
          (auto simp: registerDomain_def IsNotFound_def Let_def split: option.splits)
    next
      case False
      then show ?thesis using g Inl f by (simp add: registerDomain_def IsNotFound_def)
    qed
  next
    case (Inr d')
    then have "d' = d" using Get_domain_found g assms(1) by fastforce
    then show ?thesis using g Inr f assms(2) by (simp add: registerDomain_def)
  qed
next
  assume "answers w"
  then have "Get_domain w (reg_Name reg) = (Inr d, answered (GetDomain (reg_Name reg)) w)"
    using assms(1) by (simp add: Get_domain_def enter_answers answered_def)
  then show "registerDomain w reg = (None, answered (GetDomain (reg_Name reg)) w)"
    using assms(2) by (simp add: registerDomain_def)
qed

theorem registerDomain_idempotent_witness:
  "registerDomain (ex_world ex_r1 (Some (ex_domain [ex_ref2, regRef ex_r1] None)) []) ex_r1
     = (None, answered (GetDomain ''acme'')
                (ex_world ex_r1 (Some (ex_domain [ex_ref2, regRef ex_r1] None)) []))
   \<and> domains (snd (registerDomain
        (ex_world ex_r1 (Some (ex_domain [ex_ref2, regRef ex_r1] None)) []) ex_r1)) ''acme''
     = Some (ex_domain [ex_ref2, regRef ex_r1] None)"
proof -
  let ?w = "ex_world ex_r1 (Some (ex_domain [ex_ref2, regRef ex_r1] None)) []"
  have d: "domains ?w (reg_Name ex_r1) = Some (ex_domain [ex_ref2, regRef ex_r1] None)"
    by (simp add: ex_defs)
  have c: "ContainsObjectReference (dom_Registrations (ex_domain [ex_ref2, regRef ex_r1] None))
      ex_r1"
    by (simp add: ex_defs helper_defs)
  have a: "answers ?w"
    by (simp add: answers_def ex_defs)
  show ?thesis
    using registerDomain_idempotent [OF d c] a d by (simp add: ex_defs answered_def)
qed

text \<open>
  Claim C8, as the code has it. When the lookup finds no domain, or finds one that holds
  no reference matching the registration, \<open>unregisterDomain\<close> returns
  \<open>stillRegistered = false\<close> with no error; it makes the one read and writes nothing, so
  the stored domains are unchanged. Not-found on the lookup is never reported as an
  error: whenever \<open>unregisterDomain\<close> reports not-found, the lookup had found the domain
  holding the reference, and the error is the one the patch returned.
\<close>

theorem unregisterDomain_absent:
  "(Get_domain w (reg_Name reg) = (got, w1)
      \<and> (case got of Inl e \<Rightarrow> e = NotFound
          | Inr d \<Rightarrow> \<not> ContainsObjectReference (dom_Registrations d) reg)
    \<longrightarrow> unregisterDomain w reg = ((False, None), w1)
       \<and> domains w1 = domains w \<and> registrations w1 = registrations w
       \<and> calls w1 = calls w @ [GetDomain (reg_Name reg)])
   \<and> (unregisterDomain w reg = ((registered, Some NotFound), w2)
    \<longrightarrow> (\<exists>d v. Get_domain w (reg_Name reg) = (Inr d, v)
          \<and> ContainsObjectReference (dom_Registrations d) reg
          \<and> Patch v (d\<lparr>dom_Registrations :=
                        RemoveObjectReference (dom_Registrations d) reg\<rparr>) d
              = (Some NotFound, w2)))"
proof (intro conjI impI)
  assume h: "Get_domain w (reg_Name reg) = (got, w1)
      \<and> (case got of Inl e \<Rightarrow> e = NotFound
          | Inr d \<Rightarrow> \<not> ContainsObjectReference (dom_Registrations d) reg)"
  then have g: "Get_domain w (reg_Name reg) = (got, w1)" by simp
  show "unregisterDomain w reg = ((False, None), w1)"
    using h by (cases got) (simp_all add: unregisterDomain_def IsNotFound_def)
  show "domains w1 = domains w" using Get_domain_frame [OF g] by simp
  show "registrations w1 = registrations w" using Get_domain_frame [OF g] by simp
  show "calls w1 = calls w @ [GetDomain (reg_Name reg)]" using Get_domain_frame [OF g] by simp
next
  assume u: "unregisterDomain w reg = ((registered, Some NotFound), w2)"
  obtain got v where g: "Get_domain w (reg_Name reg) = (got, v)"
    by (cases "Get_domain w (reg_Name reg)")
  show "\<exists>d v. Get_domain w (reg_Name reg) = (Inr d, v)
          \<and> ContainsObjectReference (dom_Registrations d) reg
          \<and> Patch v (d\<lparr>dom_Registrations :=
                        RemoveObjectReference (dom_Registrations d) reg\<rparr>) d
              = (Some NotFound, w2)"
  proof (cases got)
    case (Inl e)
    then show ?thesis
      using u g by (auto simp: unregisterDomain_def IsNotFound_def split: if_splits)
  next
    case (Inr d)
    then show ?thesis
      using u g
      by (auto simp: unregisterDomain_def Let_def split: if_splits prod.splits option.splits)
  qed
qed

theorem unregisterDomain_absent_witness:
  "unregisterDomain (ex_world ex_r1 None []) ex_r1
     = ((False, None), snd (Get_domain (ex_world ex_r1 None []) ''acme''))
   \<and> unregisterDomain (ex_world ex_r1 (Some (ex_domain [ex_ref2] None)) []) ex_r1
     = ((False, None),
        snd (Get_domain (ex_world ex_r1 (Some (ex_domain [ex_ref2] None)) []) ''acme''))
   \<and> domains (snd (Get_domain (ex_world ex_r1 (Some (ex_domain [ex_ref2] None)) []) ''acme''))
        ''acme'' = Some (ex_domain [ex_ref2] None)
   \<and> fst (unregisterDomain
        (ex_world ex_r1 (Some (ex_domain [regRef ex_r1] None)) [None, Some NotFound]) ex_r1)
     = (False, Some NotFound)
   \<and> (\<exists>d. fst (Get_domain
        (ex_world ex_r1 (Some (ex_domain [regRef ex_r1] None)) [None, Some NotFound]) ''acme'')
          = Inr d \<and> ContainsObjectReference (dom_Registrations d) ex_r1)"
proof -
  let ?a = "ex_world ex_r1 None []"
  let ?b = "ex_world ex_r1 (Some (ex_domain [ex_ref2] None)) []"
  let ?c = "ex_world ex_r1 (Some (ex_domain [regRef ex_r1] None)) [None, Some NotFound]"
  have h1: "Get_domain ?a (reg_Name ex_r1) = (Inl NotFound, snd (Get_domain ?a ''acme''))
      \<and> (case Inl NotFound of Inl e \<Rightarrow> e = NotFound
          | Inr d \<Rightarrow> \<not> ContainsObjectReference (dom_Registrations d) ex_r1)"
    by (simp add: ex_defs store_defs)
  have h2: "Get_domain ?b (reg_Name ex_r1)
        = (Inr (ex_domain [ex_ref2] None), snd (Get_domain ?b ''acme''))
      \<and> (case Inr (ex_domain [ex_ref2] None) of Inl e \<Rightarrow> e = NotFound
          | Inr d \<Rightarrow> \<not> ContainsObjectReference (dom_Registrations d) ex_r1)"
    by (simp add: ex_defs store_defs helper_defs)
  have h3: "unregisterDomain ?c ex_r1
      = ((False, Some NotFound), snd (unregisterDomain ?c ex_r1))"
    by (simp add: prod_eq_iff ex_defs store_defs helper_defs controller_defs)
  note T = unregisterDomain_absent
  have 1: "unregisterDomain ?a ex_r1 = ((False, None), snd (Get_domain ?a ''acme''))"
    using T [THEN conjunct1, THEN mp, OF h1] by simp
  have 2: "unregisterDomain ?b ex_r1 = ((False, None), snd (Get_domain ?b ''acme''))
      \<and> domains (snd (Get_domain ?b ''acme'')) ''acme'' = Some (ex_domain [ex_ref2] None)"
    using T [THEN conjunct1, THEN mp, OF h2] by (simp add: ex_world_def)
  have 3: "\<exists>d. fst (Get_domain ?c ''acme'') = Inr d
      \<and> ContainsObjectReference (dom_Registrations d) ex_r1"
    using T [THEN conjunct2, THEN mp, OF h3] by (auto simp: ex_r1_def)
  have 4: "fst (unregisterDomain ?c ex_r1) = (False, Some NotFound)"
    using h3 by (simp add: prod_eq_iff)
  show ?thesis using 1 2 3 4 by blast
qed

text \<open>
  The claim C8 as stated fails in its last clause ("not-found is never reported as an
  error by unregister"): the domain is stored and holds the reference, the lookup
  succeeds, the patch answers not-found (the domain went away in between), and
  \<open>unregisterDomain\<close> returns that not-found as its error.
\<close>

theorem unregisterDomain_patch_not_found_counterexample:
  "domains (ex_world ex_r1 (Some (ex_domain [regRef ex_r1] None)) [None, Some NotFound]) ''acme''
     = Some (ex_domain [regRef ex_r1] None)
   \<and> fst (unregisterDomain
        (ex_world ex_r1 (Some (ex_domain [regRef ex_r1] None)) [None, Some NotFound]) ex_r1)
     = (False, Some NotFound)
   \<and> IsNotFound (snd (fst (unregisterDomain
        (ex_world ex_r1 (Some (ex_domain [regRef ex_r1] None)) [None, Some NotFound]) ex_r1)))
   \<and> calls (snd (unregisterDomain
        (ex_world ex_r1 (Some (ex_domain [regRef ex_r1] None)) [None, Some NotFound]) ex_r1))
     = [GetDomain ''acme'',
        PatchDomain (ex_domain [regRef ex_r1] None) (ex_domain [] None)]"
  by (simp add: ex_defs store_defs helper_defs controller_defs)



text \<open>
  Claim C4, as the code has it. The domain is looked up and created under the
  registration's own name: when no domain of that name is stored and the store answers
  the read and the create, \<open>registerDomain\<close> returns no error and stores, under that
  name, a domain whose registrations are the single reference to the registration; no
  other domain is touched. For the registration \<open>ns/acme\<close> the domain is \<open>acme\<close>.
\<close>

theorem registerDomain_creates:
  assumes "domains w (reg_Name reg) = None"
    and "answers w"
    and "answers (answered (GetDomain (reg_Name reg)) w)"
  shows "registerDomain w reg =
           (None,
            (answered (CreateDomain
                 \<lparr>dom_Name = reg_Name reg, dom_Registrations = [regRef reg],
                  dom_VerificationKey = None, dom_DNSRecords = []\<rparr>)
               (answered (GetDomain (reg_Name reg)) w))
            \<lparr>domains := (domains w)(reg_Name reg \<mapsto>
                 \<lparr>dom_Name = reg_Name reg, dom_Registrations = [regRef reg],
                  dom_VerificationKey = None, dom_DNSRecords = []\<rparr>)\<rparr>)
       \<and> domains (snd (registerDomain w reg)) (reg_Name reg) =
           Some \<lparr>dom_Name = reg_Name reg, dom_Registrations = [regRef reg],
                 dom_VerificationKey = None, dom_DNSRecords = []\<rparr>
       \<and> (\<forall>n. n \<noteq> reg_Name reg \<longrightarrow> domains (snd (registerDomain w reg)) n = domains w n)"
proof -
  let ?d = "\<lparr>dom_Name = reg_Name reg, dom_Registrations = [regRef reg],
            dom_VerificationKey = None, dom_DNSRecords = []\<rparr>"
  let ?v = "answered (GetDomain (reg_Name reg)) w"
  have g: "Get_domain w (reg_Name reg) = (Inl NotFound, ?v)"
    using assms(1,2) by (simp add: Get_domain_def enter_answers answered_def)
  have "domains ?v (dom_Name ?d) = None"
    using assms(1) by (simp add: answered_def)
  then have c: "Create ?v ?d =
      (None, (answered (CreateDomain ?d) ?v)\<lparr>domains := (domains w)(reg_Name reg \<mapsto> ?d)\<rparr>)"
    using assms(3) by (simp add: Create_def enter_answers answered_def)
  have "registerDomain w reg =
      (None, (answered (CreateDomain ?d) ?v)\<lparr>domains := (domains w)(reg_Name reg \<mapsto> ?d)\<rparr>)"
    using g c by (simp add: registerDomain_def IsNotFound_def)
  then show ?thesis by simp
qed

theorem registerDomain_creates_witness:
  "fst (registerDomain (ex_world ex_r1 None []) ex_r1) = None
   \<and> domains (snd (registerDomain (ex_world ex_r1 None []) ex_r1)) ''acme'' =
       Some \<lparr>dom_Name = ''acme'',
             dom_Registrations =
               [\<lparr>ref_APIVersion = ''domain.skygear.io/v1beta1'',
                 ref_Kind = ''CustomDomainRegistration'', ref_Name = ''acme'',
                 ref_Namespace = ''ns'', ref_UID = ''u1''\<rparr>],
             dom_VerificationKey = None, dom_DNSRecords = []\<rparr>"
proof -
  have d: "domains (ex_world ex_r1 None []) (reg_Name ex_r1) = None"
    by (simp add: ex_defs)
  have a: "answers (ex_world ex_r1 None [])"
    by (simp add: answers_def ex_defs)
  have b: "answers (answered (GetDomain (reg_Name ex_r1)) (ex_world ex_r1 None []))"
    by (simp add: answers_def answered_def ex_defs)
  show ?thesis
    using registerDomain_creates [OF d a b] by (simp add: ex_r1_def regRef_def)
qed

text \<open>
  The claim C4 as stated fails: the registration is named \<open>acme\<close>, no domain exists,
  \<open>registerDomain\<close> succeeds, and afterwards there is no domain \<open>acme.example\<close>; the
  domain that was created is \<open>acme\<close>.
\<close>

theorem registerDomain_name_counterexample:
  "reg_Name ex_r1 = ''acme'' \<and> reg_Namespace ex_r1 = ''ns'' \<and> reg_UID ex_r1 = ''u1''
   \<and> domains (ex_world ex_r1 None []) = Map.empty
   \<and> fst (registerDomain (ex_world ex_r1 None []) ex_r1) = None
   \<and> domains (snd (registerDomain (ex_world ex_r1 None []) ex_r1)) ''acme.example'' = None
   \<and> domains (snd (registerDomain (ex_world ex_r1 None []) ex_r1)) ''acme'' \<noteq> None"
  by (simp add: ex_defs store_defs helper_defs controller_defs)

text \<open>
  Claim C1, as the code has it. When the domain is found without the registration's
  reference and the patch is rejected, \<open>registerDomain\<close> returns the rejection at once:
  it has made one read and one patch attempt, and the stored domains are as they were.
  A pass that reaches \<open>registerDomain\<close> (the finalizer is present) then fails with that
  error and writes nothing to the registration.
\<close>

theorem registerDomain_patch_rejected:
  assumes "Get_domain w (reg_Name reg) = (Inr d, w1)"
    and "\<not> ContainsObjectReference (dom_Registrations d) reg"
    and "Patch w1 (d\<lparr>dom_Registrations := dom_Registrations d @ [regRef reg]\<rparr>) d = (Some e, w2)"
  shows "registerDomain w reg = (Some e, w2)
       \<and> calls w2 = calls w @ [GetDomain (reg_Name reg),
            PatchDomain d (d\<lparr>dom_Registrations := dom_Registrations d @ [regRef reg]\<rparr>)]
       \<and> domains w2 = domains w
       \<and> (Get_registration w' req = (Inr reg, w) \<and> reg_DeletionTimestamp reg = None
            \<and> DomainFinalizer \<in> set (reg_Finalizers reg)
          \<longrightarrow> Reconcile r w' req = ((\<lparr>Requeue = False\<rparr>, Some e), w2)
              \<and> registrations w2 = registrations w')"
proof -
  have reg: "registerDomain w reg = (Some e, w2)"
    using assms by (simp add: registerDomain_def Let_def)
  have log: "calls w2 = calls w @ [GetDomain (reg_Name reg),
            PatchDomain d (d\<lparr>dom_Registrations := dom_Registrations d @ [regRef reg]\<rparr>)]"
    using Get_domain_frame [OF assms(1)] Patch_frame [OF assms(3)] by simp
  have same: "domains w2 = domains w"
    using Get_domain_frame [OF assms(1)] Patch_failed [OF assms(3)] by simp
  have pass: "Reconcile r w' req = ((\<lparr>Requeue = False\<rparr>, Some e), w2)
              \<and> registrations w2 = registrations w'"
    if h: "Get_registration w' req = (Inr reg, w) \<and> reg_DeletionTimestamp reg = None
            \<and> DomainFinalizer \<in> set (reg_Finalizers reg)"
  proof -
    have "Reconcile_branch r w reg = (Inl (\<lparr>Requeue = False\<rparr>, Some e), w2)"
      using h reg by (simp add: Reconcile_branch_def Ensure_present)
    then have "Reconcile r w' req = ((\<lparr>Requeue = False\<rparr>, Some e), w2)"
      using h by (simp add: Reconcile_def)
    moreover have "registrations w2 = registrations w'"
      using h Get_registration_frame [of w' req "Inr reg" w] registerDomain_frame [OF reg]
      by simp
    ultimately show ?thesis by simp
  qed
  show ?thesis using reg log same pass by blast
qed

theorem registerDomain_patch_rejected_witness:
  "fst (Reconcile ex_reconciler
          (ex_world ex_r1 (Some (ex_domain [ex_ref2] None)) [None, None, Some Conflict])
          (''ns'', ''acme'')) = (\<lparr>Requeue = False\<rparr>, Some Conflict)
   \<and> map_option reg_Status (registrations (snd (Reconcile ex_reconciler
          (ex_world ex_r1 (Some (ex_domain [ex_ref2] None)) [None, None, Some Conflict])
          (''ns'', ''acme''))) (''ns'', ''acme'')) = Some \<lparr>Conditions = [], DNSRecords = []\<rparr>"
proof -
  let ?u = "ex_world ex_r1 (Some (ex_domain [ex_ref2] None)) [None, None, Some Conflict]"
  let ?v = "snd (Get_registration ?u (''ns'', ''acme''))"
  let ?d = "ex_domain [ex_ref2] None"
  let ?x = "snd (Get_domain ?v ''acme'')"
  let ?d' = "?d\<lparr>dom_Registrations := dom_Registrations ?d @ [regRef ex_r1]\<rparr>"
  have g: "Get_domain ?v (reg_Name ex_r1) = (Inr ?d, ?x)"
    by (simp add: prod_eq_iff ex_defs store_defs)
  have n: "\<not> ContainsObjectReference (dom_Registrations ?d) ex_r1"
    by (simp add: ex_defs helper_defs)
  have p: "Patch ?x ?d' ?d = (Some Conflict, snd (Patch ?x ?d' ?d))"
    by (simp add: prod_eq_iff ex_defs store_defs)
  have h: "Get_registration ?u (''ns'', ''acme'') = (Inr ex_r1, ?v)
      \<and> reg_DeletionTimestamp ex_r1 = None \<and> DomainFinalizer \<in> set (reg_Finalizers ex_r1)"
    by (simp add: prod_eq_iff ex_defs store_defs)
  show ?thesis
    using registerDomain_patch_rejected [OF g n p, of ?u "(''ns'', ''acme'')" ex_reconciler] h
    by (simp add: ex_defs)
qed

text \<open>
  The claim C1 as stated fails: with the patch rejected by a conflict, the pass fails
  with the conflict, its calls are one read of the registration, one read of the domain
  and one patch (no second read, no second patch), and the domain still lacks the
  reference.
\<close>

theorem registerDomain_no_retry_counterexample:
  "fst (Reconcile ex_reconciler
          (ex_world ex_r1 (Some (ex_domain [ex_ref2] None)) [None, None, Some Conflict])
          (''ns'', ''acme'')) = (\<lparr>Requeue = False\<rparr>, Some Conflict)
   \<and> calls (snd (Reconcile ex_reconciler
          (ex_world ex_r1 (Some (ex_domain [ex_ref2] None)) [None, None, Some Conflict])
          (''ns'', ''acme''))) =
       [GetRegistration (''ns'', ''acme''), GetDomain ''acme'',
        PatchDomain (ex_domain [ex_ref2] None) (ex_domain [ex_ref2, regRef ex_r1] None)]
   \<and> domains (snd (Reconcile ex_reconciler
          (ex_world ex_r1 (Some (ex_domain [ex_ref2] None)) [None, None, Some Conflict])
          (''ns'', ''acme''))) ''acme'' = Some (ex_domain [ex_ref2] None)"
  by (simp add: ex_defs store_defs helper_defs controller_defs)

section \<open>The reconcile pass\<close>

text \<open>
  Claim C2. In the deletion branch the pass submits one status write holding a single
  condition \<open>Accepted\<close>: \<open>Unknown\<close> with the error's message when
  \<open>unregisterDomain\<close> failed, the status of \<open>stillRegistered\<close> when it succeeded. The
  finalizer is removed (one further write, after an accepted status write) only when
  \<open>unregisterDomain\<close> succeeded with \<open>stillRegistered = false\<close>; in every other case the
  stored finalizers are those before the pass. An accepted status write leaves that
  condition stored.
\<close>

theorem Reconcile_deletion_branch:
  assumes "Get_registration w req = (Inr reg, w0)"
    and "reg_DeletionTimestamp reg \<noteq> None"
    and "unregisterDomain w0 reg = ((registered, uerr), w1)"
  shows "\<exists>c. cond_Type c = RegistrationAccepted
          \<and> cond_Status c = (case uerr of Some e \<Rightarrow> ConditionUnknown | None \<Rightarrow> ToStatus registered)
          \<and> cond_Message c = (case uerr of Some e \<Rightarrow> Error e | None \<Rightarrow> [])
          \<and> calls (snd (Reconcile r w req)) =
               calls w1 @ UpdateStatus (reg\<lparr>reg_Status := (reg_Status reg)\<lparr>Conditions := [c]\<rparr>\<rparr>)
                 # (if uerr = None \<and> \<not> registered
                       \<and> fst (Status_Update w1
                               (reg\<lparr>reg_Status := (reg_Status reg)\<lparr>Conditions := [c]\<rparr>\<rparr>)) = None
                    then [UpdateRegistration
                            (reg\<lparr>reg_Status := (reg_Status reg)\<lparr>Conditions := [c]\<rparr>,
                                 reg_Finalizers :=
                                   filter (\<lambda>f. f \<noteq> DomainFinalizer) (reg_Finalizers reg)\<rparr>)]
                    else [])
          \<and> (uerr \<noteq> None \<or> registered \<longrightarrow>
                (\<forall>k. map_option reg_Finalizers (registrations (snd (Reconcile r w req)) k)
                      = map_option reg_Finalizers (registrations w k)))
          \<and> (fst (Status_Update w1
                    (reg\<lparr>reg_Status := (reg_Status reg)\<lparr>Conditions := [c]\<rparr>\<rparr>)) = None \<longrightarrow>
                map_option reg_Status
                  (registrations (snd (Reconcile r w req)) (reg_Namespace reg, reg_Name reg))
                  = Some ((reg_Status reg)\<lparr>Conditions := [c]\<rparr>))"
proof -
  define c0 where "c0 =
    \<lparr>cond_Type = RegistrationAccepted,
     cond_Status = (case uerr of Some e \<Rightarrow> ConditionUnknown | None \<Rightarrow> ToStatus registered),
     cond_LastTransitionTime = 0,
     cond_Message = (case uerr of Some e \<Rightarrow> Error e | None \<Rightarrow> [])\<rparr>"
  define c where "c = MergeOne (clock w1) (Conditions (reg_Status reg)) c0"
  define reg2 where "reg2 = reg\<lparr>reg_Status := (reg_Status reg)\<lparr>Conditions := [c]\<rparr>\<rparr>"
  define fin where "fin \<longleftrightarrow> uerr = None \<and> \<not> registered"
  have b: "Reconcile_branch r w0 reg = (Inr ([c0], fin, reg), w1)"
    using assms(2,3) by (cases uerr) (auto simp: Reconcile_branch_def c0_def fin_def)
  have m: "MergeFrom (clock w1) [c0] (Conditions (reg_Status reg)) = [c]"
    by (simp add: MergeFrom_def c_def)
  have shape: "cond_Type c = RegistrationAccepted
      \<and> cond_Status c = (case uerr of Some e \<Rightarrow> ConditionUnknown | None \<Rightarrow> ToStatus registered)
      \<and> cond_Message c = (case uerr of Some e \<Rightarrow> Error e | None \<Rightarrow> [])"
    by (simp add: c_def c0_def MergeOne_def split: option.splits)
  obtain serr w2 where s: "Status_Update w1 reg2 = (serr, w2)"
    by (cases "Status_Update w1 reg2")
  note sf = Status_Update_frame [OF s]
  have regs1: "registrations w1 = registrations w"
    using Get_registration_frame [OF assms(1)] unregisterDomain_frame [OF assms(3)] by simp
  have stored: "map_option reg_Status (registrations w2 (reg_Namespace reg, reg_Name reg))
      = Some (reg_Status reg2)" if "serr = None"
    using Status_Update_done [of w1 reg2 w2] s that by (simp add: reg2_def)
  show ?thesis
  proof (cases "serr = None \<and> fin")
    case True
    obtain rerr w3 where rm: "Remove w2 reg2 DomainFinalizer = (rerr, w3)"
      by (cases "Remove w2 reg2 DomainFinalizer")
    have R: "Reconcile r w req = ((\<lparr>Requeue = False\<rparr>, rerr), w3)"
      using assms(1) b m s rm True by (simp add: Reconcile_def reg2_def)
    note uf = Update_frame [OF rm [unfolded Remove_def]]
    have log: "calls w3 = calls w1 @ [UpdateStatus reg2,
        UpdateRegistration (reg2\<lparr>reg_Finalizers :=
          filter (\<lambda>f. f \<noteq> DomainFinalizer) (reg_Finalizers reg2)\<rparr>)]"
      using sf uf by simp
    have st: "map_option reg_Status (registrations w3 (reg_Namespace reg, reg_Name reg))
        = Some (reg_Status reg2)"
      using uf stored True by simp
    show ?thesis
      using shape R log st s True
      by (intro exI [of _ c]) (simp add: reg2_def fin_def)
  next
    case False
    have R: "Reconcile r w req = ((\<lparr>Requeue = False\<rparr>, serr), w2)"
      using assms(1) b m s False by (cases serr) (auto simp: Reconcile_def reg2_def)
    have log: "calls w2 = calls w1 @ [UpdateStatus reg2]"
      using sf by simp
    have keep: "\<forall>k. map_option reg_Finalizers (registrations w2 k)
        = map_option reg_Finalizers (registrations w k)"
      using sf regs1 by simp
    show ?thesis
      using shape R log keep stored s False
      by (intro exI [of _ c]) (auto simp: reg2_def fin_def)
  qed
qed

theorem Reconcile_deletion_branch_witness:
  "map_option reg_Finalizers (registrations (snd (Reconcile ex_reconciler
       (ex_world (ex_r1\<lparr>reg_DeletionTimestamp := Some 5\<rparr>)
          (Some (ex_domain [regRef ex_r1] None)) [None, Some (StoreError ''boom'')])
       (''ns'', ''acme''))) (''ns'', ''acme'')) = Some [DomainFinalizer]
   \<and> map_option (map cond_Status \<circ> Conditions \<circ> reg_Status) (registrations (snd (Reconcile
       ex_reconciler
       (ex_world (ex_r1\<lparr>reg_DeletionTimestamp := Some 5\<rparr>)
          (Some (ex_domain [regRef ex_r1] None)) [None, Some (StoreError ''boom'')])
       (''ns'', ''acme''))) (''ns'', ''acme'')) = Some [ConditionUnknown]
   \<and> map_option (map cond_Message \<circ> Conditions \<circ> reg_Status) (registrations (snd (Reconcile
       ex_reconciler
       (ex_world (ex_r1\<lparr>reg_DeletionTimestamp := Some 5\<rparr>)
          (Some (ex_domain [regRef ex_r1] None)) [None, Some (StoreError ''boom'')])
       (''ns'', ''acme''))) (''ns'', ''acme'')) = Some [''boom'']
   \<and> map_option (map cond_Status \<circ> Conditions \<circ> reg_Status) (registrations (snd (Reconcile
       ex_reconciler
       (ex_world (ex_r1\<lparr>reg_DeletionTimestamp := Some 5\<rparr>)
          (Some (ex_domain [ex_ref2, regRef ex_r1] None)) [])
       (''ns'', ''acme''))) (''ns'', ''acme'')) = Some [ConditionFalse]"
proof -
  let ?k = "(''ns'', ''acme'')"
  let ?r = "ex_r1\<lparr>reg_DeletionTimestamp := Some 5\<rparr>"
  have t: "reg_DeletionTimestamp ?r \<noteq> None" by simp
  \<comment> \<open>unregister fails on its read\<close>
  let ?a = "ex_world ?r (Some (ex_domain [regRef ex_r1] None)) [None, Some (StoreError ''boom'')]"
  let ?a1 = "snd (Get_registration ?a ?k)"
  have g1: "Get_registration ?a ?k = (Inr ?r, ?a1)"
    by (simp add: prod_eq_iff ex_defs store_defs)
  have u1: "unregisterDomain ?a1 ?r
      = ((False, Some (StoreError ''boom'')), snd (unregisterDomain ?a1 ?r))"
    by (simp add: prod_eq_iff ex_defs store_defs helper_defs controller_defs)
  from Reconcile_deletion_branch [OF g1 t u1, of ex_reconciler]
  have 1: "map_option reg_Finalizers (registrations (snd (Reconcile ex_reconciler ?a ?k)) ?k)
        = Some [DomainFinalizer]
      \<and> map_option (map cond_Status \<circ> Conditions \<circ> reg_Status)
          (registrations (snd (Reconcile ex_reconciler ?a ?k)) ?k) = Some [ConditionUnknown]
      \<and> map_option (map cond_Message \<circ> Conditions \<circ> reg_Status)
          (registrations (snd (Reconcile ex_reconciler ?a ?k)) ?k) = Some [''boom'']"
    by (auto simp: ex_defs store_defs helper_defs controller_defs)
  \<comment> \<open>unregister succeeds\<close>
  let ?b = "ex_world ?r (Some (ex_domain [ex_ref2, regRef ex_r1] None)) []"
  let ?b1 = "snd (Get_registration ?b ?k)"
  have g2: "Get_registration ?b ?k = (Inr ?r, ?b1)"
    by (simp add: prod_eq_iff ex_defs store_defs)
  have u2: "unregisterDomain ?b1 ?r = ((False, None), snd (unregisterDomain ?b1 ?r))"
    by (simp add: prod_eq_iff ex_defs store_defs helper_defs controller_defs)
  from Reconcile_deletion_branch [OF g2 t u2, of ex_reconciler]
  have 2: "map_option (map cond_Status \<circ> Conditions \<circ> reg_Status)
          (registrations (snd (Reconcile ex_reconciler ?b ?k)) ?k) = Some [ConditionFalse]"
    by (auto simp: ex_defs store_defs helper_defs controller_defs)
  show ?thesis using 1 2 by simp
qed

text \<open>
  Claim C3, as the code has it. A failure of the read of the registration, of the write
  that adds the finalizer, of \<open>registerDomain\<close> or of the status write itself ends the
  pass with that error (not-found on the read of the registration ends it without one),
  and the stored registrations are unchanged.
\<close>

theorem Reconcile_aborts_before_status:
  "(Get_registration w req = (Inl e, w0) \<longrightarrow>
      Reconcile r w req = ((\<lparr>Requeue = False\<rparr>, IgnoreNotFound (Some e)), w0)
      \<and> registrations w0 = registrations w)
   \<and> (Get_registration w req = (Inr reg, w0) \<and> reg_DeletionTimestamp reg = None
       \<and> Ensure w0 reg DomainFinalizer = ((added, Some e), reg1, w1) \<longrightarrow>
      Reconcile r w req = ((\<lparr>Requeue = False\<rparr>, Some e), w1)
      \<and> registrations w1 = registrations w)
   \<and> (Get_registration w req = (Inr reg, w0) \<and> reg_DeletionTimestamp reg = None
       \<and> Ensure w0 reg DomainFinalizer = ((False, None), reg1, w1)
       \<and> registerDomain w1 reg1 = (Some e, w2) \<longrightarrow>
      Reconcile r w req = ((\<lparr>Requeue = False\<rparr>, Some e), w2)
      \<and> registrations w2 = registrations w)
   \<and> (Get_registration w req = (Inr reg, w0)
       \<and> Reconcile_branch r w0 reg = (Inr (conditions, doFinalize, reg1), w1)
       \<and> Status_Update w1 (reg1\<lparr>reg_Status := (reg_Status reg1)\<lparr>Conditions :=
             MergeFrom (clock w1) conditions (Conditions (reg_Status reg1))\<rparr>\<rparr>) = (Some e, w2)
       \<longrightarrow>
      Reconcile r w req = ((\<lparr>Requeue = False\<rparr>, Some e), w2)
      \<and> registrations w2 = registrations w)"
proof (intro conjI impI)
  assume h: "Get_registration w req = (Inl e, w0)"
  show "Reconcile r w req = ((\<lparr>Requeue = False\<rparr>, IgnoreNotFound (Some e)), w0)"
    using h by (simp add: Reconcile_def)
  show "registrations w0 = registrations w"
    using Get_registration_frame [OF h] by simp
next
  assume h: "Get_registration w req = (Inr reg, w0) \<and> reg_DeletionTimestamp reg = None
       \<and> Ensure w0 reg DomainFinalizer = ((added, Some e), reg1, w1)"
  then have "Reconcile_branch r w0 reg = (Inl (\<lparr>Requeue = False\<rparr>, Some e), w1)"
    by (simp add: Reconcile_branch_def)
  then show "Reconcile r w req = ((\<lparr>Requeue = False\<rparr>, Some e), w1)"
    using h by (simp add: Reconcile_def)
  show "registrations w1 = registrations w"
    using h Get_registration_frame [of w req "Inr reg" w0]
      Ensure_failed [of w0 reg DomainFinalizer added e reg1 w1] by simp
next
  assume h: "Get_registration w req = (Inr reg, w0) \<and> reg_DeletionTimestamp reg = None
       \<and> Ensure w0 reg DomainFinalizer = ((False, None), reg1, w1)
       \<and> registerDomain w1 reg1 = (Some e, w2)"
  then have "Reconcile_branch r w0 reg = (Inl (\<lparr>Requeue = False\<rparr>, Some e), w2)"
    by (simp add: Reconcile_branch_def)
  then show "Reconcile r w req = ((\<lparr>Requeue = False\<rparr>, Some e), w2)"
    using h by (simp add: Reconcile_def)
  show "registrations w2 = registrations w"
    using h Get_registration_frame [of w req "Inr reg" w0]
      Ensure_not_added [of w0 reg DomainFinalizer None reg1 w1]
      registerDomain_frame [of w1 reg1 "Some e" w2] by simp
next
  assume h: "Get_registration w req = (Inr reg, w0)
       \<and> Reconcile_branch r w0 reg = (Inr (conditions, doFinalize, reg1), w1)
       \<and> Status_Update w1 (reg1\<lparr>reg_Status := (reg_Status reg1)\<lparr>Conditions :=
             MergeFrom (clock w1) conditions (Conditions (reg_Status reg1))\<rparr>\<rparr>) = (Some e, w2)"
  then show "Reconcile r w req = ((\<lparr>Requeue = False\<rparr>, Some e), w2)"
    by (simp add: Reconcile_def Let_def)
  show "registrations w2 = registrations w"
    using h Get_registration_frame [of w req "Inr reg" w0]
      Reconcile_branch_frame [of r w0 reg "(conditions, doFinalize, reg1)" w1]
      Status_Update_failed [of w1 _ e w2] by auto
qed

theorem Reconcile_aborts_before_status_witness:
  "fst (Reconcile ex_reconciler (ex_world ex_r1 None [Some (StoreError ''boom'')])
          (''ns'', ''acme'')) = (\<lparr>Requeue = False\<rparr>, Some (StoreError ''boom''))
   \<and> registrations (snd (Reconcile ex_reconciler
          (ex_world ex_r1 None [Some (StoreError ''boom'')]) (''ns'', ''acme'')))
          (''ns'', ''acme'') = Some ex_r1
   \<and> fst (Reconcile ex_reconciler
          (ex_world (ex_r1\<lparr>reg_Finalizers := []\<rparr>) None [None, Some (StoreError ''boom'')])
          (''ns'', ''acme'')) = (\<lparr>Requeue = False\<rparr>, Some (StoreError ''boom''))
   \<and> registrations (snd (Reconcile ex_reconciler
          (ex_world (ex_r1\<lparr>reg_Finalizers := []\<rparr>) None [None, Some (StoreError ''boom'')])
          (''ns'', ''acme''))) (''ns'', ''acme'') = Some (ex_r1\<lparr>reg_Finalizers := []\<rparr>)
   \<and> fst (Reconcile ex_reconciler (ex_world ex_r1 None [None, Some (StoreError ''boom'')])
          (''ns'', ''acme'')) = (\<lparr>Requeue = False\<rparr>, Some (StoreError ''boom''))
   \<and> registrations (snd (Reconcile ex_reconciler
          (ex_world ex_r1 None [None, Some (StoreError ''boom'')]) (''ns'', ''acme'')))
          (''ns'', ''acme'') = Some ex_r1
   \<and> fst (Reconcile ex_reconciler
          (ex_world ex_r1 (Some (ex_domain [regRef ex_r1] None))
             [None, None, None, Some (StoreError ''boom'')])
          (''ns'', ''acme'')) = (\<lparr>Requeue = False\<rparr>, Some (StoreError ''boom''))
   \<and> registrations (snd (Reconcile ex_reconciler
          (ex_world ex_r1 (Some (ex_domain [regRef ex_r1] None))
             [None, None, None, Some (StoreError ''boom'')])
          (''ns'', ''acme''))) (''ns'', ''acme'') = Some ex_r1"
proof -
  let ?k = "(''ns'', ''acme'')"
  let ?boom = "StoreError ''boom''"
  note T = Reconcile_aborts_before_status
  \<comment> \<open>the read of the registration fails\<close>
  let ?a = "ex_world ex_r1 None [Some ?boom]"
  have h1: "Get_registration ?a ?k = (Inl ?boom, snd (Get_registration ?a ?k))"
    by (simp add: prod_eq_iff ex_defs store_defs)
  have 1: "fst (Reconcile ex_reconciler ?a ?k) = (\<lparr>Requeue = False\<rparr>, Some ?boom)
      \<and> registrations (snd (Reconcile ex_reconciler ?a ?k)) ?k = Some ex_r1"
    using T [of ?a ?k ?boom _ ex_reconciler, THEN conjunct1, THEN mp, OF h1]
    by (simp add: IgnoreNotFound_def IsNotFound_def ex_world_def)
  \<comment> \<open>the write that adds the finalizer fails\<close>
  let ?r = "ex_r1\<lparr>reg_Finalizers := []\<rparr>"
  let ?b = "ex_world ?r None [None, Some ?boom]"
  let ?b1 = "snd (Get_registration ?b ?k)"
  have h2: "Get_registration ?b ?k = (Inr ?r, ?b1) \<and> reg_DeletionTimestamp ?r = None
      \<and> Ensure ?b1 ?r DomainFinalizer
          = ((False, Some ?boom), fst (snd (Ensure ?b1 ?r DomainFinalizer)),
             snd (snd (Ensure ?b1 ?r DomainFinalizer)))"
    by (simp add: prod_eq_iff ex_defs store_defs Ensure_def Let_def)
  have 2: "fst (Reconcile ex_reconciler ?b ?k) = (\<lparr>Requeue = False\<rparr>, Some ?boom)
      \<and> registrations (snd (Reconcile ex_reconciler ?b ?k)) ?k = Some ?r"
    using T [of ?b ?k _ _ ex_reconciler, THEN conjunct2, THEN conjunct1, THEN mp, OF h2]
    by (simp add: ex_world_def)
  \<comment> \<open>the read of the domain in register fails\<close>
  let ?c = "ex_world ex_r1 None [None, Some ?boom]"
  let ?c1 = "snd (Get_registration ?c ?k)"
  have h3: "Get_registration ?c ?k = (Inr ex_r1, ?c1) \<and> reg_DeletionTimestamp ex_r1 = None
      \<and> Ensure ?c1 ex_r1 DomainFinalizer = ((False, None), ex_r1, ?c1)
      \<and> registerDomain ?c1 ex_r1 = (Some ?boom, snd (registerDomain ?c1 ex_r1))"
    by (simp add: prod_eq_iff ex_defs store_defs Ensure_def registerDomain_def Let_def)
  have 3: "fst (Reconcile ex_reconciler ?c ?k) = (\<lparr>Requeue = False\<rparr>, Some ?boom)
      \<and> registrations (snd (Reconcile ex_reconciler ?c ?k)) ?k = Some ex_r1"
    using T [of ?c ?k _ _ ex_reconciler, THEN conjunct2, THEN conjunct2, THEN conjunct1,
        THEN mp, OF h3]
    by (simp add: ex_world_def)
  \<comment> \<open>the status write fails\<close>
  let ?d = "ex_world ex_r1 (Some (ex_domain [regRef ex_r1] None)) [None, None, None, Some ?boom]"
  let ?d1 = "snd (Get_registration ?d ?k)"
  let ?d2 = "snd (Reconcile_branch ex_reconciler ?d1 ex_r1)"
  let ?cs = "[\<lparr>cond_Type = RegistrationVerified, cond_Status = ConditionFalse,
               cond_LastTransitionTime = 0, cond_Message = []\<rparr>]"
  let ?s = "ex_r1\<lparr>reg_Status := (reg_Status ex_r1)\<lparr>Conditions :=
             MergeFrom (clock ?d2) ?cs (Conditions (reg_Status ex_r1))\<rparr>\<rparr>"
  have h4: "Get_registration ?d ?k = (Inr ex_r1, ?d1)
      \<and> Reconcile_branch ex_reconciler ?d1 ex_r1 = (Inr (?cs, False, ex_r1), ?d2)
      \<and> Status_Update ?d2 ?s = (Some ?boom, snd (Status_Update ?d2 ?s))"
    by (simp add: prod_eq_iff ex_defs store_defs helper_defs controller_defs)
  have 4: "fst (Reconcile ex_reconciler ?d ?k) = (\<lparr>Requeue = False\<rparr>, Some ?boom)
      \<and> registrations (snd (Reconcile ex_reconciler ?d ?k)) ?k = Some ex_r1"
    using T [of ?d ?k _ _ ex_reconciler, THEN conjunct2, THEN conjunct2, THEN conjunct2,
        THEN mp, OF h4]
    by (simp add: ex_world_def)
  show ?thesis using 1 2 3 4 by blast
qed

text \<open>
  The claim C3 as stated fails: a store failure inside \<open>unregisterDomain\<close> (first
  pass below, deletion branch) or inside \<open>verifyDomainIfNeeded\<close> (second pass) does not
  end the pass with an error. The pass returns no error and persists a status holding
  the condition \<open>Unknown\<close> with the failure's message.
\<close>

theorem Reconcile_swallowed_failure_counterexample:
  "map_option reg_Status (registrations
       (ex_world (ex_r1\<lparr>reg_DeletionTimestamp := Some 5\<rparr>)
          (Some (ex_domain [regRef ex_r1] None)) [None, Some (StoreError ''boom'')])
       (''ns'', ''acme'')) = Some \<lparr>Conditions = [], DNSRecords = []\<rparr>
   \<and> calls (snd (Reconcile ex_reconciler
       (ex_world (ex_r1\<lparr>reg_DeletionTimestamp := Some 5\<rparr>)
          (Some (ex_domain [regRef ex_r1] None)) [None, Some (StoreError ''boom'')])
       (''ns'', ''acme''))) ! 1 = GetDomain ''acme''
   \<and> fst (Reconcile ex_reconciler
       (ex_world (ex_r1\<lparr>reg_DeletionTimestamp := Some 5\<rparr>)
          (Some (ex_domain [regRef ex_r1] None)) [None, Some (StoreError ''boom'')])
       (''ns'', ''acme'')) = (\<lparr>Requeue = False\<rparr>, None)
   \<and> map_option reg_Status (registrations (snd (Reconcile ex_reconciler
       (ex_world (ex_r1\<lparr>reg_DeletionTimestamp := Some 5\<rparr>)
          (Some (ex_domain [regRef ex_r1] None)) [None, Some (StoreError ''boom'')])
       (''ns'', ''acme''))) (''ns'', ''acme'')) =
       Some \<lparr>Conditions = [\<lparr>cond_Type = RegistrationAccepted, cond_Status = ConditionUnknown,
                 cond_LastTransitionTime = 7, cond_Message = ''boom''\<rparr>], DNSRecords = []\<rparr>
   \<and> fst (Reconcile ex_reconciler
       (ex_world ex_r1 (Some (ex_domain [regRef ex_r1] None))
          [None, None, Some (StoreError ''boom'')])
       (''ns'', ''acme'')) = (\<lparr>Requeue = False\<rparr>, None)
   \<and> map_option reg_Status (registrations (snd (Reconcile ex_reconciler
       (ex_world ex_r1 (Some (ex_domain [regRef ex_r1] None))
          [None, None, Some (StoreError ''boom'')])
       (''ns'', ''acme''))) (''ns'', ''acme'')) =
       Some \<lparr>Conditions = [\<lparr>cond_Type = RegistrationVerified, cond_Status = ConditionUnknown,
                 cond_LastTransitionTime = 7, cond_Message = ''boom''\<rparr>], DNSRecords = []\<rparr>"
  by (simp add: ex_defs store_defs helper_defs controller_defs)

section \<open>Merging conditions\<close>

text \<open>
  Claim C9. Each merged condition keeps the type, status and message of the new
  condition at its place. If the previous set holds a condition of the same type with
  the same status, the merged condition carries the \<open>lastTransitionTime\<close> of such a
  previous condition; if it holds none, the merged condition's \<open>lastTransitionTime\<close> is
  the reconciling instant.
\<close>

theorem MergeFrom_lastTransitionTime:
  assumes "i < length conditions"
  shows "length (MergeFrom now conditions previous) = length conditions
       \<and> cond_Type (MergeFrom now conditions previous ! i) = cond_Type (conditions ! i)
       \<and> cond_Status (MergeFrom now conditions previous ! i) = cond_Status (conditions ! i)
       \<and> cond_Message (MergeFrom now conditions previous ! i) = cond_Message (conditions ! i)
       \<and> ((\<exists>p\<in>set previous. cond_Type p = cond_Type (conditions ! i)
                \<and> cond_Status p = cond_Status (conditions ! i))
            \<longrightarrow> (\<exists>p\<in>set previous. cond_Type p = cond_Type (conditions ! i)
                \<and> cond_Status p = cond_Status (conditions ! i)
                \<and> cond_LastTransitionTime (MergeFrom now conditions previous ! i)
                    = cond_LastTransitionTime p))
       \<and> ((\<forall>p\<in>set previous. \<not> (cond_Type p = cond_Type (conditions ! i)
                \<and> cond_Status p = cond_Status (conditions ! i)))
            \<longrightarrow> cond_LastTransitionTime (MergeFrom now conditions previous ! i) = now)"
proof -
  let ?c = "conditions ! i"
  let ?same = "\<lambda>p. cond_Type p = cond_Type ?c \<and> cond_Status p = cond_Status ?c"
  have m: "MergeFrom now conditions previous ! i = MergeOne now previous ?c"
    using assms by (simp add: MergeFrom_def)
  have keep: "cond_Type (MergeOne now previous ?c) = cond_Type ?c
      \<and> cond_Status (MergeOne now previous ?c) = cond_Status ?c
      \<and> cond_Message (MergeOne now previous ?c) = cond_Message ?c"
    by (simp add: MergeOne_def split: option.splits)
  have carried: "\<exists>p\<in>set previous. ?same p
        \<and> cond_LastTransitionTime (MergeOne now previous ?c) = cond_LastTransitionTime p"
    if "\<exists>p\<in>set previous. ?same p"
  proof -
    from that obtain q where q: "find ?same previous = Some q"
      by (cases "find ?same previous") (auto simp: find_None_iff)
    then have "q \<in> set previous \<and> ?same q"
      by (auto simp: find_Some_iff)
    moreover have "cond_LastTransitionTime (MergeOne now previous ?c) = cond_LastTransitionTime q"
      using q by (simp add: MergeOne_def)
    ultimately show ?thesis by blast
  qed
  have fresh: "cond_LastTransitionTime (MergeOne now previous ?c) = now"
    if "\<forall>p\<in>set previous. \<not> ?same p"
  proof -
    from that have "find ?same previous = None"
      by (simp add: find_None_iff)
    then show ?thesis by (simp add: MergeOne_def)
  qed
  show ?thesis
    using m keep carried fresh by (simp add: MergeFrom_def)
qed

theorem MergeFrom_lastTransitionTime_witness:
  "cond_LastTransitionTime
     (MergeFrom 7
        [\<lparr>cond_Type = RegistrationVerified, cond_Status = ConditionFalse,
          cond_LastTransitionTime = 0, cond_Message = []\<rparr>]
        [\<lparr>cond_Type = RegistrationVerified, cond_Status = ConditionFalse,
          cond_LastTransitionTime = 3, cond_Message = []\<rparr>] ! 0) = 3
   \<and> cond_LastTransitionTime
     (MergeFrom 7
        [\<lparr>cond_Type = RegistrationVerified, cond_Status = ConditionTrue,
          cond_LastTransitionTime = 0, cond_Message = []\<rparr>]
        [\<lparr>cond_Type = RegistrationVerified, cond_Status = ConditionFalse,
          cond_LastTransitionTime = 3, cond_Message = []\<rparr>] ! 0) = 7"
proof -
  let ?p = "\<lparr>cond_Type = RegistrationVerified, cond_Status = ConditionFalse,
          cond_LastTransitionTime = 3, cond_Message = []\<rparr>"
  let ?f = "\<lparr>cond_Type = RegistrationVerified, cond_Status = ConditionFalse,
          cond_LastTransitionTime = 0, cond_Message = []\<rparr>"
  let ?t = "\<lparr>cond_Type = RegistrationVerified, cond_Status = ConditionTrue,
          cond_LastTransitionTime = 0, cond_Message = []\<rparr>"
  have i: "(0::nat) < length [?f]" "(0::nat) < length [?t]" by simp_all
  show ?thesis
    using MergeFrom_lastTransitionTime [OF i(1), of 7 "[?p]"]
      MergeFrom_lastTransitionTime [OF i(2), of 7 "[?p]"]
    by simp
qed

end
